theory Spec2Isabelle
  imports Main "HOL-Library.Word"
begin

unbundle bit_operations_syntax

section \<open>Data model of boot.c\<close>

type_synonym u8 = "8 word"
type_synonym u16 = "16 word"
type_synonym u32 = "32 word"

text \<open>
  Modelled from the spec: boot.h (struct ipl\_entry\_s, struct ipl\_s and the IPL\_TYPE\_*
  constants) is not under src/. An entry has the fields boot.c reads: \<open>type\<close>,
  \<open>vector\<close> and \<open>description\<close>, a pointer that is null (\<open>None\<close>) or points at the
  bytes of a label. The table is the list of its entries, \<open>count\<close> is stored beside it.
\<close>

record ipl_entry_s =
  type :: u16
  vector :: u32
  description :: "string option"

record ipl_s =
  table :: "ipl_entry_s list"
  count :: u16
  bootorder :: u32
  checkfloppysig :: u8

text \<open>
  Modelled from the spec: the values of the IPL\_TYPE\_* constants of boot.h. boot.c fixes
  them: \<open>drivetypes\<close> is indexed by the type (1 Floppy, 2 Hard Disk, 3 CD-Rom),
  \<open>print_boot_failure\<close> accepts exactly the types 1 to 3, and the comment in
  \<open>printf_bootdev\<close> says that a BEV entry has type 0x80.
\<close>

definition IPL_TYPE_FLOPPY :: u16 where "IPL_TYPE_FLOPPY = 0x01"
definition IPL_TYPE_HARDDISK :: u16 where "IPL_TYPE_HARDDISK = 0x02"
definition IPL_TYPE_CDROM :: u16 where "IPL_TYPE_CDROM = 0x03"
definition IPL_TYPE_BEV :: u16 where "IPL_TYPE_BEV = 0x80"

text \<open>
  Modelled from the spec: MBR\_SIGNATURE and the offset of \<open>signature\<close> in struct mbr\_s
  (disk.h), the trailing two bytes of the 512-byte sector with the fixed value 0xAA55;
  F\_CF (bregs.h), the carry bit of the x86 flags register.
\<close>

definition MBR_SIGNATURE :: u16 where "MBR_SIGNATURE = 0xaa55"
definition mbr_signature_offset :: u16 where "mbr_signature_offset = 510"
definition F_CF :: u16 where "F_CF = 1"

text \<open>
  Modelled from the spec: struct bregs (bregs.h), the register frame handed to
  \<open>call16\<close> and \<open>call16_int\<close>: the x86 real-mode register file. The 8- and 16-bit
  registers boot.c writes (\<open>dl\<close>, \<open>ah\<close>, \<open>al\<close>, \<open>cl\<close>, \<open>ax\<close>) are parts of the
  32-bit ones, so writing one leaves the other bits of its register as they were.
\<close>

record bregs =
  ds :: u16
  es :: u16
  edi :: u32
  esi :: u32
  ebp :: u32
  ebx :: u32
  edx :: u32
  ecx :: u32
  eax :: u32
  ip :: u16
  cs :: u16
  flags :: u16

text \<open>\<open>memset(&cr, 0, sizeof(cr))\<close>\<close>

definition bregs_zero :: bregs where
  "bregs_zero = \<lparr>ds = 0, es = 0, edi = 0, esi = 0, ebp = 0, ebx = 0, edx = 0, ecx = 0,
     eax = 0, ip = 0, cs = 0, flags = 0\<rparr>"

definition set_lo8 :: "u8 \<Rightarrow> u32 \<Rightarrow> u32" where
  "set_lo8 v r = (r AND NOT 0xff) OR ucast v"

definition set_hi8 :: "u8 \<Rightarrow> u32 \<Rightarrow> u32" where
  "set_hi8 v r = (r AND NOT 0xff00) OR push_bit 8 (ucast v)"

definition set_lo16 :: "u16 \<Rightarrow> u32 \<Rightarrow> u32" where
  "set_lo16 v r = (r AND NOT 0xffff) OR ucast v"

definition set_dl :: "u8 \<Rightarrow> bregs \<Rightarrow> bregs" where
  "set_dl v r = r\<lparr>edx := set_lo8 v (edx r)\<rparr>"

definition set_cl :: "u8 \<Rightarrow> bregs \<Rightarrow> bregs" where
  "set_cl v r = r\<lparr>ecx := set_lo8 v (ecx r)\<rparr>"

definition set_al :: "u8 \<Rightarrow> bregs \<Rightarrow> bregs" where
  "set_al v r = r\<lparr>eax := set_lo8 v (eax r)\<rparr>"

definition set_ah :: "u8 \<Rightarrow> bregs \<Rightarrow> bregs" where
  "set_ah v r = r\<lparr>eax := set_hi8 v (eax r)\<rparr>"

definition set_ax :: "u16 \<Rightarrow> bregs \<Rightarrow> bregs" where
  "set_ax v r = r\<lparr>eax := set_lo16 v (eax r)\<rparr>"

definition dl :: "bregs \<Rightarrow> u8" where
  "dl r = ucast (edx r)"

definition dh :: "bregs \<Rightarrow> u8" where
  "dh r = ucast (drop_bit 8 (edx r))"

definition ax :: "bregs \<Rightarrow> u16" where
  "ax r = ucast (eax r)"

definition ah :: "bregs \<Rightarrow> u8" where
  "ah r = ucast (drop_bit 8 (eax r))"

definition al :: "bregs \<Rightarrow> u8" where
  "al r = ucast (eax r)"

definition cl :: "bregs \<Rightarrow> u8" where
  "cl r = ucast (ecx r)"

section \<open>What the code does to the outside\<close>

text \<open>
  Every call that leaves boot.c is an event of the trace, in the order the code makes
  them: console output, the disk read (\<open>call16_int(0x13, &cr)\<close> with the request
  registers), \<open>cdrom_boot()\<close>, the jump \<open>call16(&cr)\<close> and the recovery interrupt
  \<open>call16_int(0x18, &br)\<close>.
\<close>

datatype arg = Str string | Num int

datatype event =
    Printf string "arg list"
  | Dprintf nat string "arg list"
  | Call16_int13 bregs
  | Cdrom_boot
  | Call16 bregs
  | Call16_int18 bregs

text \<open>
  Modelled from the spec: \<open>BX_PANIC\<close> (util.h) halts the system with its message (spec,
  section 7: fatal outcomes halt the entire boot process); the code after it does not run.
  \<open>Out_of_bounds\<close> is a read of \<open>IPL.table\<close> past the entries the table holds, which C
  leaves undefined.
\<close>

datatype halt = Panic string | Out_of_bounds

text \<open>
  What boot.c reads from the outside, one field for each read:
  the two configuration constants of config.h; the registers \<open>call16_int(0x13, &cr)\<close>
  leaves in \<open>cr\<close> for a request; the 16-bit word \<open>GET_FARVAR\<close> finds at a
  segment and offset after the read; the status \<open>cdrom_boot()\<close> returns and the two
  fields of \<open>cdemu\<close> it publishes in the EBDA. C leaves \<open>x >> n\<close> undefined on a
  32-bit \<open>x\<close> for \<open>n \<ge> 32\<close>; \<open>wide_shift\<close> is what the platform computes there.
\<close>

record extern =
  CONFIG_BOOT :: bool
  CONFIG_CDROM_BOOT :: bool
  int13 :: "bregs \<Rightarrow> bregs"
  get_farvar :: "u16 \<Rightarrow> u16 \<Rightarrow> u16"
  cdrom_status :: int
  cdemu_emulated_drive :: u8
  cdemu_load_segment :: u16
  wide_shift :: "u32 \<Rightarrow> nat \<Rightarrow> u32"

text \<open>
  Modelled from the spec: the persistent configuration area (biosvar.h), of which boot.c
  reads and writes the field \<open>boot_sequence\<close>. The field has the 16 bits of the
  variable \<open>seq\<close> that \<open>handle_18\<close> stores in it and of the parameter of
  \<open>do_boot\<close>.
\<close>

record ebda =
  boot_sequence :: u16

section \<open>printf_bootdev, print_boot_device, print_boot_failure\<close>

definition drivetypes :: "string list" where
  "drivetypes = ['''', ''Floppy'', ''Hard Disk'', ''CD-Rom'', ''Network'']"

text \<open>\<open>IPL.table[bootdev]\<close>: the entry, or nothing past the end of the table.\<close>

definition table_at :: "ipl_s \<Rightarrow> nat \<Rightarrow> ipl_entry_s option" where
  "table_at I i = (if i < length (table I) then Some (table I ! i) else None)"

text \<open>
  \<open>printf_bootdev\<close> returns the output it made and \<open>Some h\<close> when it halted;
  \<open>printf_entry\<close> is its body after the read of \<open>IPL.table[bootdev]\<close>. The label
  of a BEV entry is printed from the first 32 bytes its pointer refers to.
\<close>

definition printf_entry :: "ipl_entry_s \<Rightarrow> event list \<times> halt option" where
  "printf_entry e =
     (let ty = (if type e = IPL_TYPE_BEV then 0x4 else type e) in
      if ty = 0 \<or> ty > 0x4 then ([], Some (Panic ''Bad drive type\<newline>''))
      else
        ([Printf ''%s'' [Str (drivetypes ! unat ty)]] @
         (case description e of
            None \<Rightarrow> []
          | Some d \<Rightarrow> if ty = 4 then [Printf '' [%.s]'' [Str (take 32 d)]] else []),
         None))"

definition printf_bootdev :: "ipl_s \<Rightarrow> u16 \<Rightarrow> event list \<times> halt option" where
  "printf_bootdev I bootdev =
     (case table_at I (unat bootdev) of
        None \<Rightarrow> ([], Some Out_of_bounds)
      | Some e \<Rightarrow> printf_entry e)"

definition print_boot_device :: "ipl_s \<Rightarrow> u16 \<Rightarrow> event list \<times> halt option" where
  "print_boot_device I bootdev =
     (case printf_bootdev I bootdev of
        (t, Some h) \<Rightarrow> (Printf ''Booting from '' [] # t, Some h)
      | (t, None) \<Rightarrow> (Printf ''Booting from '' [] # t @ [Printf ''...\<newline>'' []], None))"

definition print_boot_failure :: "u16 \<Rightarrow> u8 \<Rightarrow> event list \<times> halt option" where
  "print_boot_failure ty reason =
     (if ty = 0 \<or> ty > 0x3 then ([], Some (Panic ''Bad drive type\<newline>''))
      else
        ([Printf ''Boot failed'' []] @
         (if ty < 4 then
            (if reason = 0 then [Printf '': not a bootable disk'' []]
             else [Printf '': could not read the boot disk'' []])
          else []) @
         [Printf ''\<newline>\<newline>'' []],
         None))"

section \<open>try_boot\<close>

datatype outcome = Halted halt | Returned | Jumped bregs

text \<open>\<open>bootdev >>= 4 * seq_nr\<close> on the 32-bit \<open>bootdev\<close>.\<close>

definition shr_u32 :: "extern \<Rightarrow> u32 \<Rightarrow> nat \<Rightarrow> u32" where
  "shr_u32 X x n = (if n < 32 then drop_bit n x else wide_shift X x n)"

text \<open>Lines 85 to 87: the field of the boot order that \<open>seq_nr\<close> selects.\<close>

definition bootdev_field :: "extern \<Rightarrow> ipl_s \<Rightarrow> u16 \<Rightarrow> u32" where
  "bootdev_field X I seq_nr = shr_u32 X (bootorder I) (4 * unat seq_nr) AND 0xf"

text \<open>
  Lines 89 to 93: the panic on an empty field, otherwise the field minus one, the
  offset into the IPL table.
\<close>

definition resolve_bootdev :: "extern \<Rightarrow> ipl_s \<Rightarrow> u16 \<Rightarrow> halt + u32" where
  "resolve_bootdev X I seq_nr =
     (let bootdev = bootdev_field X I seq_nr in
      if bootdev = 0 then Inl (Panic ''No bootable device.\<newline>'')
      else Inr (bootdev - 1))"

text \<open>
  Lines 141, 142 and 159, 160: \<open>bootip = (bootseg & 0x0fff) << 4; bootseg &= 0xf000\<close>,
  returned as (segment, offset). The shift is on \<open>int\<close> and its result is stored in the
  16-bit \<open>bootip\<close>.
\<close>

definition canonicalize :: "u16 \<Rightarrow> u16 \<times> u16" where
  "canonicalize bootseg =
     (bootseg AND 0xf000, ucast (push_bit 4 (ucast (bootseg AND 0x0fff) :: u32)))"

text \<open>The outcome of a call of \<open>print_boot_failure\<close> followed by \<open>return\<close>.\<close>

definition fail_return :: "event list \<times> halt option \<Rightarrow> event list \<times> (outcome + u16 \<times> u16 \<times> u8)" where
  "fail_return r = (case r of (t, Some h) \<Rightarrow> (t, Inl (Halted h)) | (t, None) \<Rightarrow> (t, Inl Returned))"

text \<open>
  The switch on the type, lines 109 to 173: either \<open>try_boot\<close> is left (\<open>Inl\<close>), or
  the switch is left by \<open>break\<close> with \<open>(bootseg, bootip, bootdrv)\<close>.
  \<open>read_request\<close> is the frame of the disk read, lines 117 to 122.
\<close>

definition read_request :: "u8 \<Rightarrow> u16 \<Rightarrow> bregs" where
  "read_request bootdrv bootseg =
     set_cl 1 (set_al 1 (set_ah 2 ((set_dl bootdrv bregs_zero)\<lparr>es := bootseg\<rparr>)))"

definition load_disk :: "extern \<Rightarrow> ipl_s \<Rightarrow> u16 \<Rightarrow> event list \<times> (outcome + u16 \<times> u16 \<times> u8)" where
  "load_disk X I ty =
     (let bootdrv = (if ty = IPL_TYPE_HARDDISK then 0x80 else 0x00);
          bootseg = 0x07c0;
          cr = read_request bootdrv bootseg;
          cr' = int13 X cr
      in
        if flags cr' AND F_CF \<noteq> 0 then
          (case fail_return (print_boot_failure ty 1) of (t, r) \<Rightarrow> (Call16_int13 cr # t, r))
        else if (ty \<noteq> IPL_TYPE_FLOPPY \<or> checkfloppysig I \<noteq> 0)
                \<and> get_farvar X bootseg mbr_signature_offset \<noteq> MBR_SIGNATURE then
          (case fail_return (print_boot_failure ty 0) of (t, r) \<Rightarrow> (Call16_int13 cr # t, r))
        else
          (case canonicalize bootseg of
             (bootseg', bootip) \<Rightarrow> ([Call16_int13 cr], Inr (bootseg', bootip, bootdrv))))"

definition load_cdrom :: "extern \<Rightarrow> u16 \<Rightarrow> event list \<times> (outcome + u16 \<times> u16 \<times> u8)" where
  "load_cdrom X ty =
     (if \<not> CONFIG_CDROM_BOOT X then ([], Inl Returned)
      else
        (let status = cdrom_status X in
         if status \<noteq> 0 then
           (case fail_return (print_boot_failure ty 1) of
              (t, r) \<Rightarrow>
                (Cdrom_boot # Printf ''CDROM boot failure code : %04x\<newline>'' [Num status] # t, r))
         else
           (let bootdrv = cdemu_emulated_drive X;
                bootseg = cdemu_load_segment X
            in case canonicalize bootseg of
                 (bootseg', bootip) \<Rightarrow> ([Cdrom_boot], Inr (bootseg', bootip, bootdrv)))))"

definition load_bev :: "ipl_entry_s \<Rightarrow> event list \<times> (outcome + u16 \<times> u16 \<times> u8)" where
  "load_bev e =
     (let v = vector e;
          bootseg = (ucast (drop_bit 16 v) :: u16);
          bootip = (ucast (v AND 0xffff) :: u16)
      in ([], Inr (bootseg, bootip, 0)))"

definition load_switch :: "extern \<Rightarrow> ipl_s \<Rightarrow> ipl_entry_s \<Rightarrow> event list \<times> (outcome + u16 \<times> u16 \<times> u8)" where
  "load_switch X I e =
     (let ty = type e in
      if ty = IPL_TYPE_FLOPPY \<or> ty = IPL_TYPE_HARDDISK then load_disk X I ty
      else if ty = IPL_TYPE_CDROM then load_cdrom X ty
      else if ty = IPL_TYPE_BEV then load_bev e
      else ([], Inl Returned))"

text \<open>Lines 178 to 183: the frame of the jump.\<close>

definition boot_frame :: "u16 \<Rightarrow> u16 \<Rightarrow> u8 \<Rightarrow> bregs" where
  "boot_frame bootseg bootip bootdrv =
     set_ax 0xaa55 (set_dl bootdrv (bregs_zero\<lparr>ip := bootip, cs := bootseg\<rparr>))"

text \<open>
  \<open>try_boot\<close>. What the program entered by \<open>call16\<close> does, returning included, is not
  part of the model: the trace ends with the jump.
\<close>

definition try_boot :: "extern \<Rightarrow> ipl_s \<Rightarrow> u16 \<Rightarrow> event list \<times> outcome" where
  "try_boot X I seq_nr =
     (if \<not> CONFIG_BOOT X then ([], Halted (Panic ''Boot support not compiled in.\<newline>''))
      else
        (case resolve_bootdev X I seq_nr of
           Inl h \<Rightarrow> ([], Halted h)
         | Inr bootdev \<Rightarrow>
             if bootdev \<ge> ucast (count I) then
               ([Dprintf 1 ''Invalid boot device (0x%x)\<newline>'' [Num (uint bootdev)]], Returned)
             else
               (case print_boot_device I (ucast bootdev) of
                  (t1, Some h) \<Rightarrow> (t1, Halted h)
                | (t1, None) \<Rightarrow>
                    (case table_at I (unat bootdev) of
                       None \<Rightarrow> (t1, Halted Out_of_bounds)
                     | Some e \<Rightarrow>
                         (case load_switch X I e of
                            (t2, Inl out) \<Rightarrow> (t1 @ t2, out)
                          | (t2, Inr (bootseg, bootip, bootdrv)) \<Rightarrow>
                              (let cr = boot_frame bootseg bootip bootdrv in
                               (t1 @ t2 @
                                [Dprintf 1 ''Booting from %x:%x\<newline>''
                                   [Num (uint bootseg), Num (uint bootip)],
                                 Call16 cr],
                                Jumped cr)))))))"

section \<open>do_boot and the two entry points\<close>

text \<open>
  \<open>do_boot\<close> runs \<open>try_boot\<close> and, when that returns, raises the recovery interrupt
  with a zeroed frame. The interrupt is served outside this function; the model of one
  invocation ends there.
\<close>

datatype handoff = Stopped halt | Entered bregs | Recovery bregs

definition do_boot :: "extern \<Rightarrow> ipl_s \<Rightarrow> u16 \<Rightarrow> event list \<times> handoff" where
  "do_boot X I seq_nr =
     (case try_boot X I seq_nr of
        (t, Halted h) \<Rightarrow> (t, Stopped h)
      | (t, Jumped cr) \<Rightarrow> (t, Entered cr)
      | (t, Returned) \<Rightarrow>
          (let br = bregs_zero in (t @ [Call16_int18 br], Recovery br)))"

text \<open>
  The entry points return the EBDA as they leave it when \<open>do_boot\<close> is called, and what
  \<open>do_boot\<close> does. \<open>seq\<close> is a 16-bit variable: the sum wraps at \<open>2 ^ 16\<close>.
  The calls of \<open>debug_serial_setup\<close> and \<open>debug_enter\<close>, which set up and write
  debug output, are left out.
\<close>

definition handle_18 :: "extern \<Rightarrow> ipl_s \<Rightarrow> ebda \<Rightarrow> ebda \<times> event list \<times> handoff" where
  "handle_18 X I E =
     (let seq = boot_sequence E + 1;
          E' = E\<lparr>boot_sequence := seq\<rparr>
      in (E', do_boot X I seq))"

definition handle_19 :: "extern \<Rightarrow> ipl_s \<Rightarrow> ebda \<Rightarrow> ebda \<times> event list \<times> handoff" where
  "handle_19 X I E =
     (let E' = E\<lparr>boot_sequence := 0\<rparr>
      in (E', do_boot X I 0))"

section \<open>Observations on a run\<close>

text \<open>
  An entry is dispatched by \<open>try_boot\<close> for \<open>seq_nr\<close> when the boot order resolves
  to an index below \<open>count\<close> at which the table holds the entry.
\<close>

definition dispatched :: "extern \<Rightarrow> ipl_s \<Rightarrow> u16 \<Rightarrow> ipl_entry_s \<Rightarrow> bool" where
  "dispatched X I seq_nr e =
     (CONFIG_BOOT X \<and>
      (case resolve_bootdev X I seq_nr of
         Inl h \<Rightarrow> False
       | Inr bootdev \<Rightarrow> bootdev < ucast (count I) \<and> table_at I (unat bootdev) = Some e))"

text \<open>The output of \<open>print_boot_device\<close> for an entry whose type it accepts.\<close>

definition banner :: "ipl_entry_s \<Rightarrow> event list" where
  "banner e = Printf ''Booting from '' [] # fst (printf_entry e) @ [Printf ''...\<newline>'' []]"

fun is_io :: "event \<Rightarrow> bool" where
  "is_io (Call16_int13 cr) = True"
| "is_io Cdrom_boot = True"
| "is_io ev = False"

fun is_transfer :: "event \<Rightarrow> bool" where
  "is_transfer (Call16 cr) = True"
| "is_transfer ev = False"

text \<open>The first line \<open>print_boot_failure\<close> prints, the user-visible report of a failure.\<close>

fun is_boot_failure :: "event \<Rightarrow> bool" where
  "is_boot_failure (Printf s as) = (s = ''Boot failed'')"
| "is_boot_failure ev = False"

fun is_printf :: "event \<Rightarrow> bool" where
  "is_printf (Printf s as) = True"
| "is_printf ev = False"

section \<open>A sample machine\<close>

text \<open>
  A disk whose reads succeed and whose sector carries the signature, a CD-ROM emulation
  that loads at segment 0x07c0 as drive 0xe0, and a table with one entry of each type,
  one of type 0 and one of type 4. The boot order names the six entries in turn, then
  an index past \<open>count\<close>, then nothing.
\<close>

definition sample_extern :: extern where
  "sample_extern =
     \<lparr>CONFIG_BOOT = True, CONFIG_CDROM_BOOT = True, int13 = (\<lambda>cr. cr),
      get_farvar = (\<lambda>seg off. 0xaa55), cdrom_status = 0, cdemu_emulated_drive = 0xe0,
      cdemu_load_segment = 0x07c0, wide_shift = (\<lambda>x n. 0)\<rparr>"

definition bad_sector_extern :: extern where
  "bad_sector_extern = sample_extern\<lparr>get_farvar := (\<lambda>seg off. 0)\<rparr>"

definition sample_table :: "ipl_entry_s list" where
  "sample_table =
     [\<lparr>type = 0x02, vector = 0, description = None\<rparr>,
      \<lparr>type = 0x01, vector = 0, description = None\<rparr>,
      \<lparr>type = 0x03, vector = 0, description = None\<rparr>,
      \<lparr>type = 0x80, vector = 0x12340056, description = Some ''PXE''\<rparr>,
      \<lparr>type = 0x00, vector = 0, description = None\<rparr>,
      \<lparr>type = 0x04, vector = 0, description = None\<rparr>]"

definition sample_ipl :: ipl_s where
  "sample_ipl = \<lparr>table = sample_table, count = 6, bootorder = 0x07654321, checkfloppysig = 0\<rparr>"

section \<open>Auxiliary facts\<close>

subsection \<open>Masks and shifts on the load segment\<close>

lemma low12_take_bit: "(S::u16) AND 0x0fff = take_bit 12 S"
proof -
  have "(0x0fff::u16) = mask 12" by (simp add: mask_eq_exp_minus_1)
  then show ?thesis by (simp add: take_bit_eq_mask)
qed

lemma high4_push_drop: "(S::u16) AND 0xf000 = push_bit 12 (drop_bit 12 S)"
proof -
  have "(0xf000::u16) = NOT (mask 12)" by (simp add: mask_eq_exp_minus_1)
  then have "S AND 0xf000 = S AND NOT (mask 12)" by simp
  also have "\<dots> = push_bit 12 (drop_bit 12 S)"
    by (rule bit_eqI) (auto simp add: bit_simps)
  finally show ?thesis .
qed

lemma unat_high4: "unat ((S::u16) AND 0xf000) = (unat S div 4096) * 4096"
proof -
  have "unat S < 65536" using unsigned_less [of S, where 'a = nat] by simp
  then have b: "(unat S div 4096) * 4096 < 65536" by arith
  have "unat (S AND 0xf000) = take_bit 16 (push_bit 12 (drop_bit 12 (unat S)))"
    by (simp only: high4_push_drop unsigned_push_bit_eq unat_drop_bit_eq len_bit0 len_num1) simp
  also have "\<dots> = (unat S div 4096) * 4096"
    using b by (simp add: take_bit_eq_mod push_bit_eq_mult drop_bit_eq_div)
  finally show ?thesis .
qed

lemma unat_bootip:
  "unat (ucast (push_bit 4 (ucast ((S::u16) AND 0x0fff) :: u32)) :: u16) = (unat S mod 4096) * 16"
proof -
  have b: "(unat S mod 4096) * 16 < 65536" by arith
  have "unat (ucast (push_bit 4 (ucast (S AND 0x0fff) :: u32)) :: u16)
      = take_bit 16 (take_bit 32 (push_bit 4 (take_bit 12 (unat S))))"
    by (simp only: low12_take_bit unsigned_ucast_eq unsigned_push_bit_eq unsigned_take_bit_eq
        len_bit0 len_num1) simp
  also have "\<dots> = (unat S mod 4096) * 16"
    using b by (simp add: take_bit_eq_mod push_bit_eq_mult)
  finally show ?thesis .
qed

lemma bootip_16bit:
  "(ucast (push_bit 4 (ucast ((S::u16) AND 0x0fff) :: u32)) :: u16) = push_bit 4 (S AND 0x0fff)"
proof -
  have "(ucast (push_bit 4 (ucast (take_bit 12 S) :: u32)) :: u16) = push_bit 4 (take_bit 12 S)"
    by (rule bit_eqI) (auto simp add: bit_simps)
  then show ?thesis by (simp only: low12_take_bit)
qed

subsection \<open>The resolved index\<close>

lemma field_le: "bootdev_field X I s \<le> 0xf"
  unfolding bootdev_field_def by (rule word_and_le1)

lemma unat_field: "unat (bootdev_field X I s) < 16"
  using field_le [of X I s] by (simp add: word_le_nat_alt)

lemma resolve_Inr_bound: "resolve_bootdev X I s = Inr b \<Longrightarrow> unat b < 15"
proof -
  assume a: "resolve_bootdev X I s = Inr b"
  then have nz: "bootdev_field X I s \<noteq> 0" and b: "b = bootdev_field X I s - 1"
    by (auto simp: resolve_bootdev_def Let_def split: if_splits)
  from nz have "unat (bootdev_field X I s) \<noteq> 0" by (simp add: unat_eq_0)
  then have "unat b = unat (bootdev_field X I s) - 1"
    unfolding b by (simp add: unat_minus_one nz)
  with unat_field [of X I s] show ?thesis by arith
qed

lemma ucast_index: "unat b < 15 \<Longrightarrow> unat (ucast (b::u32) :: u16) = unat b"
  by (simp add: unsigned_ucast_eq take_bit_nat_eq_self)

lemma field_take_bit:
  assumes "unat seq_nr < 8"
  shows "bootdev_field X I seq_nr = take_bit 4 (drop_bit (4 * unat seq_nr) (bootorder I))"
proof -
  have "(0xf::u32) = mask 4" by (simp add: mask_eq_exp_minus_1)
  with assms show ?thesis
    by (simp add: bootdev_field_def shr_u32_def take_bit_eq_mask)
qed

lemma count_compare: "(ucast (c::u16) \<le> (b::u32)) = (unat c \<le> unat b)"
  by (simp add: word_le_nat_alt unsigned_ucast_eq take_bit_nat_eq_self
      order_less_trans [OF unsigned_less [of c, where 'a = nat]])

subsection \<open>The device name\<close>

lemma type_above_4:
  "(ty::u16) \<noteq> 0 \<Longrightarrow> ty \<noteq> 1 \<Longrightarrow> ty \<noteq> 2 \<Longrightarrow> ty \<noteq> 3 \<Longrightarrow> ty \<noteq> 4 \<Longrightarrow> ty > 4"
  by unat_arith

lemma printf_entry_bad:
  "type e \<noteq> 1 \<Longrightarrow> type e \<noteq> 2 \<Longrightarrow> type e \<noteq> 3 \<Longrightarrow> type e \<noteq> 4 \<Longrightarrow> type e \<noteq> 0x80 \<Longrightarrow>
   printf_entry e = ([], Some (Panic ''Bad drive type\<newline>''))"
  using type_above_4 [of "type e"]
  by (auto simp: printf_entry_def IPL_TYPE_BEV_def Let_def)

lemma printf_entry_known:
  "type e = 1 \<or> type e = 2 \<or> type e = 3 \<or> type e = 4 \<or> type e = 0x80 \<Longrightarrow>
   snd (printf_entry e) = None"
  by (auto simp: printf_entry_def IPL_TYPE_BEV_def Let_def)

subsection \<open>try_boot on a dispatched entry\<close>

lemma try_boot_dispatched:
  assumes "dispatched X I s e"
  shows "try_boot X I s =
     (case printf_entry e of
        (t, Some h) \<Rightarrow> (Printf ''Booting from '' [] # t, Halted h)
      | (t, None) \<Rightarrow>
          (case load_switch X I e of
             (t2, Inl out) \<Rightarrow> (banner e @ t2, out)
           | (t2, Inr (bootseg, bootip, bootdrv)) \<Rightarrow>
               (banner e @ t2 @
                [Dprintf 1 ''Booting from %x:%x\<newline>'' [Num (uint bootseg), Num (uint bootip)],
                 Call16 (boot_frame bootseg bootip bootdrv)],
                Jumped (boot_frame bootseg bootip bootdrv))))"
proof -
  from assms obtain b where cb: "CONFIG_BOOT X" and r: "resolve_bootdev X I s = Inr b"
    and lt: "b < ucast (count I)" and te: "table_at I (unat b) = Some e"
    by (auto simp: dispatched_def split: sum.splits)
  have u: "unat (ucast b :: u16) = unat b"
    using resolve_Inr_bound [OF r] by (rule ucast_index)
  have nge: "\<not> ucast (count I) \<le> b" using lt by simp
  show ?thesis
    by (simp add: try_boot_def cb r nge print_boot_device_def printf_bootdev_def u te banner_def
        Let_def split: prod.splits option.splits sum.splits)
qed

subsection \<open>Outcomes of the load\<close>

lemma print_boot_failure_ok:
  "ty = 1 \<or> ty = 2 \<or> ty = 3 \<Longrightarrow>
   print_boot_failure ty reason =
     ([Printf ''Boot failed'' [],
       Printf (if reason = 0 then '': not a bootable disk'' else '': could not read the boot disk'') [],
       Printf ''\<newline>\<newline>'' []], None)"
  by (auto simp: print_boot_failure_def)

lemma load_disk_Inl:
  "ty = 1 \<or> ty = 2 \<Longrightarrow> load_disk X I ty = (t, Inl out) \<Longrightarrow> out = Returned"
  by (auto simp: load_disk_def Let_def print_boot_failure_ok fail_return_def
      split: if_splits prod.splits)

lemma load_cdrom_Inl:
  "load_cdrom X 3 = (t, Inl out) \<Longrightarrow> out = Returned"
  by (auto simp: load_cdrom_def Let_def print_boot_failure_ok fail_return_def
      split: if_splits prod.splits)

lemma load_switch_Inl:
  assumes "load_switch X I e = (t, Inl out)"
  shows "out = Returned"
proof -
  consider "type e = 1 \<or> type e = 2" | "type e = 3" | "type e = 0x80"
    | "type e \<noteq> 1" "type e \<noteq> 2" "type e \<noteq> 3" "type e \<noteq> 0x80"
    by blast
  then show ?thesis
  proof cases
    case 1
    with assms have "load_disk X I (type e) = (t, Inl out)"
      by (auto simp: load_switch_def Let_def IPL_TYPE_FLOPPY_def IPL_TYPE_HARDDISK_def)
    with 1 show ?thesis by (rule load_disk_Inl)
  next
    case 2
    with assms have "load_cdrom X 3 = (t, Inl out)"
      by (simp add: load_switch_def Let_def IPL_TYPE_FLOPPY_def IPL_TYPE_HARDDISK_def
          IPL_TYPE_CDROM_def)
    then show ?thesis by (rule load_cdrom_Inl)
  next
    case 3
    with assms show ?thesis
      by (simp add: load_switch_def Let_def load_bev_def IPL_TYPE_FLOPPY_def
          IPL_TYPE_HARDDISK_def IPL_TYPE_CDROM_def IPL_TYPE_BEV_def)
  next
    case 4
    with assms show ?thesis
      by (simp add: load_switch_def Let_def IPL_TYPE_FLOPPY_def
          IPL_TYPE_HARDDISK_def IPL_TYPE_CDROM_def IPL_TYPE_BEV_def)
  qed
qed

lemma printf_entry_Some:
  "printf_entry e = (t, Some h) \<Longrightarrow> h = Panic ''Bad drive type\<newline>''"
  by (auto simp: printf_entry_def Let_def split: if_splits)

lemma try_boot_halted:
  assumes "snd (try_boot X I s) = Halted h"
  shows "(\<not> CONFIG_BOOT X \<and> h = Panic ''Boot support not compiled in.\<newline>'')
       \<or> (CONFIG_BOOT X \<and> bootdev_field X I s = 0 \<and> h = Panic ''No bootable device.\<newline>'')
       \<or> (CONFIG_BOOT X \<and> bootdev_field X I s \<noteq> 0 \<and> (h = Panic ''Bad drive type\<newline>'' \<or> h = Out_of_bounds))"
proof (cases "CONFIG_BOOT X")
  case False
  with assms show ?thesis by (simp add: try_boot_def)
next
  case cb: True
  show ?thesis
  proof (cases "bootdev_field X I s = 0")
    case True
    with assms cb show ?thesis by (simp add: try_boot_def resolve_bootdev_def)
  next
    case nz: False
    then have r: "resolve_bootdev X I s = Inr (bootdev_field X I s - 1)"
      by (simp add: resolve_bootdev_def)
    have "h = Panic ''Bad drive type\<newline>'' \<or> h = Out_of_bounds"
      using assms cb 
      by (auto simp: try_boot_def r print_boot_device_def printf_bootdev_def Let_def
          split: if_splits prod.splits option.splits sum.splits
          dest: load_switch_Inl printf_entry_Some)
    with cb nz show ?thesis by simp
  qed
qed





subsection \<open>The load, type by type\<close>

lemma canonicalize_07c0: "canonicalize 0x07c0 = (0, 0x7c00)"
  by (simp add: canonicalize_def)

lemma try_boot_known:
  assumes "dispatched X I s e"
    and "type e = 1 \<or> type e = 2 \<or> type e = 3 \<or> type e = 4 \<or> type e = 0x80"
  shows "try_boot X I s =
          (case load_switch X I e of
             (t2, Inl out) \<Rightarrow> (banner e @ t2, out)
           | (t2, Inr (bootseg, bootip, bootdrv)) \<Rightarrow>
               (banner e @ t2 @
                [Dprintf 1 ''Booting from %x:%x\<newline>'' [Num (uint bootseg), Num (uint bootip)],
                 Call16 (boot_frame bootseg bootip bootdrv)],
                Jumped (boot_frame bootseg bootip bootdrv)))"
proof -
  obtain t where p: "printf_entry e = (t, None)"
    using printf_entry_known [OF assms(2)] by (cases "printf_entry e") simp
  show ?thesis
    by (simp only: try_boot_dispatched [OF assms(1)] p prod.case option.case)
qed

lemma load_disk_eq:
  assumes "ty = 1 \<or> ty = 2"
  shows "load_disk X I ty =
     (let bootdrv = (if ty = 2 then 0x80 else 0x00);
          cr = read_request bootdrv 0x07c0
      in if flags (int13 X cr) AND F_CF \<noteq> 0 then
           ([Call16_int13 cr, Printf ''Boot failed'' [],
             Printf '': could not read the boot disk'' [], Printf ''\<newline>\<newline>'' []],
            Inl Returned)
         else if (ty \<noteq> 1 \<or> checkfloppysig I \<noteq> 0)
                 \<and> get_farvar X 0x07c0 mbr_signature_offset \<noteq> MBR_SIGNATURE then
           ([Call16_int13 cr, Printf ''Boot failed'' [],
             Printf '': not a bootable disk'' [], Printf ''\<newline>\<newline>'' []],
            Inl Returned)
         else ([Call16_int13 cr], Inr (0, 0x7c00, bootdrv)))"
  using assms
  by (auto simp: load_disk_def Let_def print_boot_failure_ok fail_return_def canonicalize_07c0
      IPL_TYPE_FLOPPY_def IPL_TYPE_HARDDISK_def)

lemma load_cdrom_eq:
  "load_cdrom X 3 =
     (if \<not> CONFIG_CDROM_BOOT X then ([], Inl Returned)
      else if cdrom_status X \<noteq> 0 then
        ([Cdrom_boot, Printf ''CDROM boot failure code : %04x\<newline>'' [Num (cdrom_status X)],
          Printf ''Boot failed'' [], Printf '': could not read the boot disk'' [],
          Printf ''\<newline>\<newline>'' []],
         Inl Returned)
      else
        ([Cdrom_boot],
         Inr (fst (canonicalize (cdemu_load_segment X)), snd (canonicalize (cdemu_load_segment X)),
              cdemu_emulated_drive X)))"
  by (auto simp: load_cdrom_def Let_def print_boot_failure_ok fail_return_def split: prod.splits)

lemma load_switch_eq:
  "load_switch X I e =
     (if type e = 1 \<or> type e = 2 then load_disk X I (type e)
      else if type e = 3 then load_cdrom X 3
      else if type e = 0x80 then
        ([], Inr (ucast (drop_bit 16 (vector e)), ucast (vector e AND 0xffff), 0))
      else ([], Inl Returned))"
  by (simp add: load_switch_def Let_def load_bev_def IPL_TYPE_FLOPPY_def IPL_TYPE_HARDDISK_def
      IPL_TYPE_CDROM_def IPL_TYPE_BEV_def)

lemma banner_no_failure: "\<not> list_ex is_boot_failure (banner e)"
  by (auto simp: banner_def printf_entry_def Let_def list_ex_iff split: option.splits if_splits)

lemma banner_no_transfer: "\<not> list_ex is_transfer (banner e)"
  by (auto simp: banner_def printf_entry_def Let_def list_ex_iff split: option.splits if_splits)

lemma banner_no_io: "\<not> list_ex is_io (banner e)"
  by (auto simp: banner_def printf_entry_def Let_def list_ex_iff split: option.splits if_splits)

lemma dispatched_sample:
  "dispatched sample_extern sample_ipl 0 \<lparr>type = 0x02, vector = 0, description = None\<rparr>"
  "dispatched sample_extern sample_ipl 1 \<lparr>type = 0x01, vector = 0, description = None\<rparr>"
  "dispatched sample_extern sample_ipl 2 \<lparr>type = 0x03, vector = 0, description = None\<rparr>"
  "dispatched sample_extern sample_ipl 3 \<lparr>type = 0x80, vector = 0x12340056, description = Some ''PXE''\<rparr>"
  "dispatched sample_extern sample_ipl 4 \<lparr>type = 0x00, vector = 0, description = None\<rparr>"
  "dispatched sample_extern sample_ipl 5 \<lparr>type = 0x04, vector = 0, description = None\<rparr>"
  by (simp_all add: dispatched_def sample_extern_def sample_ipl_def sample_table_def
      resolve_bootdev_def bootdev_field_def shr_u32_def table_at_def)


lemma dispatched_cong:
  "CONFIG_BOOT X' = CONFIG_BOOT X \<Longrightarrow> wide_shift X' = wide_shift X \<Longrightarrow>
   dispatched X' I s e = dispatched X I s e"
  by (simp add: dispatched_def resolve_bootdev_def bootdev_field_def shr_u32_def)

lemma ucast_u8_u32_u8: "(ucast (ucast (d::u8) :: u32) :: u8) = d"
  by (rule bit_eqI) (auto simp add: bit_simps)

lemma frame_fields:
  "ip (boot_frame bootseg bootip bootdrv) = bootip"
  "cs (boot_frame bootseg bootip bootdrv) = bootseg"
  "dl (boot_frame bootseg bootip bootdrv) = bootdrv"
  "ax (boot_frame bootseg bootip bootdrv) = 0xaa55"
  by (simp_all add: boot_frame_def set_ax_def set_dl_def set_lo8_def set_lo16_def bregs_zero_def
      dl_def ax_def ucast_u8_u32_u8)


subsection \<open>The frame of the jump\<close>

lemma read_request_fields:
  "dl (read_request bootdrv bootseg) = bootdrv"
  "es (read_request bootdrv bootseg) = bootseg"
  "ah (read_request bootdrv bootseg) = 2"
  "al (read_request bootdrv bootseg) = 1"
  "cl (read_request bootdrv bootseg) = 1"
  "flags (read_request bootdrv bootseg) = 0"
  by (simp_all add: read_request_def set_cl_def set_al_def set_ah_def set_dl_def set_lo8_def
      set_hi8_def bregs_zero_def dl_def ah_def al_def cl_def ucast_u8_u32_u8)

lemma boot_frame_record:
  "boot_frame bootseg bootip bootdrv =
     \<lparr>ds = 0, es = 0, edi = 0, esi = 0, ebp = 0, ebx = 0, edx = ucast bootdrv, ecx = 0,
      eax = 0xaa55, ip = bootip, cs = bootseg, flags = 0\<rparr>"
  by (simp add: boot_frame_def set_ax_def set_dl_def set_lo8_def set_lo16_def bregs_zero_def)

lemma dh_ucast: "(ucast (drop_bit 8 (ucast (d::u8) :: u32)) :: u8) = 0"
  by (rule bit_eqI) (auto simp add: bit_simps dest: bit_imp_le_length)

lemma try_boot_jumped:
  assumes "snd (try_boot X I s) = Jumped cr"
  shows "\<exists>bootseg bootip bootdrv. cr = boot_frame bootseg bootip bootdrv"
  using assms
  by (auto simp: try_boot_def Let_def
      split: if_splits prod.splits option.splits sum.splits dest: load_switch_Inl)

lemma sample_flags: "flags (int13 sample_extern (read_request v s)) AND F_CF = 0"
  by (simp add: sample_extern_def read_request_def set_cl_def set_al_def set_ah_def set_dl_def
      bregs_zero_def)

lemma sample_run_hd: "snd (try_boot sample_extern sample_ipl 0) = Jumped (boot_frame 0 0x7c00 0x80)"
proof -
  have l: "load_switch sample_extern sample_ipl \<lparr>type = 0x02, vector = 0, description = None\<rparr>
      = ([Call16_int13 (read_request 0x80 0x07c0)], Inr (0, 0x7c00, 0x80))"
    using sample_flags [of "0x80" "0x07c0"]
    by (simp add: load_switch_eq load_disk_eq Let_def)
      (simp add: sample_extern_def MBR_SIGNATURE_def)
  show ?thesis
    by (simp add: try_boot_known [OF dispatched_sample(1)] l)
qed

lemma sample_load_cdrom:
  "load_switch sample_extern sample_ipl \<lparr>type = 0x03, vector = 0, description = None\<rparr>
      = ([Cdrom_boot], Inr (0, 0x7c00, 0xe0))"
  by (simp add: load_switch_eq load_cdrom_eq)
    (simp add: sample_extern_def canonicalize_def)


section \<open>The canonical far pointer\<close>

text \<open>
  C3. For every 16-bit load segment \<open>S\<close> the pair the code derives is the segment
  \<open>S AND 0xf000\<close> and the offset \<open>(S AND 0x0fff) << 4\<close>, and flattened back,
  segment * 16 + offset, it is \<open>S * 16\<close> truncated to 20 bits: the canonical far
  pointer addresses the byte the flat reading of \<open>S\<close> does.
\<close>

theorem canonicalize_law:
  "fst (canonicalize S) = S AND 0xf000 \<and>
   snd (canonicalize S) = push_bit 4 (S AND 0x0fff) \<and>
   unat (fst (canonicalize S)) * 16 + unat (snd (canonicalize S)) = (unat S * 16) mod 2 ^ 20"
proof -
  have lt: "unat S < 65536" using unsigned_less [of S, where 'a = nat] by simp
  have split: "unat S = unat S div 4096 * 4096 + unat S mod 4096" by simp
  have "unat (fst (canonicalize S)) * 16 + unat (snd (canonicalize S))
      = unat S div 4096 * 4096 * 16 + unat S mod 4096 * 16"
    by (simp only: canonicalize_def fst_conv snd_conv unat_high4 unat_bootip)
  also have "\<dots> = unat S * 16" using split by arith
  also have "\<dots> = (unat S * 16) mod 2 ^ 20" using lt by simp
  finally show ?thesis by (simp only: canonicalize_def fst_conv snd_conv bootip_16bit)
qed

section \<open>Resolving the boot order\<close>

text \<open>
  C7. For every attempt index from 0 to 7 and every 32-bit boot order, the field the code
  extracts is the four bits of the order at positions \<open>4 * attempt\<close> to
  \<open>4 * attempt + 3\<close>; when it is not zero the candidate table index is the field
  minus one; and the result depends on the boot order and the attempt index only.
\<close>

theorem resolve_extracts_field:
  assumes "unat seq_nr < 8"
  shows "bootdev_field X I seq_nr = take_bit 4 (drop_bit (4 * unat seq_nr) (bootorder I)) \<and>
    (\<forall>i. bit (bootdev_field X I seq_nr) i = (i < 4 \<and> bit (bootorder I) (4 * unat seq_nr + i))) \<and>
    unat (bootdev_field X I seq_nr) = unat (bootorder I) div 2 ^ (4 * unat seq_nr) mod 16 \<and>
    (bootdev_field X I seq_nr \<noteq> 0 \<longrightarrow>
       resolve_bootdev X I seq_nr = Inr (bootdev_field X I seq_nr - 1) \<and>
       unat (bootdev_field X I seq_nr - 1) = unat (bootdev_field X I seq_nr) - 1) \<and>
    (bootorder I' = bootorder I \<longrightarrow> resolve_bootdev X' I' seq_nr = resolve_bootdev X I seq_nr)"
proof -
  note f = field_take_bit [OF assms]
  have bits: "\<forall>i. bit (bootdev_field X I seq_nr) i = (i < 4 \<and> bit (bootorder I) (4 * unat seq_nr + i))"
    unfolding f by (auto simp add: bit_simps)
  have un: "unat (bootdev_field X I seq_nr) = unat (bootorder I) div 2 ^ (4 * unat seq_nr) mod 16"
  proof -
    have "unat (bootdev_field X I seq_nr) = take_bit 4 (drop_bit (4 * unat seq_nr) (unat (bootorder I)))"
      by (simp only: f unsigned_take_bit_eq unat_drop_bit_eq)
    then show ?thesis by (simp add: take_bit_eq_mod drop_bit_eq_div)
  qed
  have res: "bootdev_field X I seq_nr \<noteq> 0 \<longrightarrow>
       resolve_bootdev X I seq_nr = Inr (bootdev_field X I seq_nr - 1) \<and>
       unat (bootdev_field X I seq_nr - 1) = unat (bootdev_field X I seq_nr) - 1"
    by (simp add: resolve_bootdev_def Let_def unat_minus_one)
  have pure: "bootorder I' = bootorder I \<longrightarrow> resolve_bootdev X' I' seq_nr = resolve_bootdev X I seq_nr"
    by (simp add: resolve_bootdev_def Let_def field_take_bit [OF assms])
  from f bits un res pure show ?thesis by blast
qed

theorem resolve_extracts_field_witness:
  "unat (3::u16) < 8 \<and> bootdev_field sample_extern sample_ipl 3 = 4 \<and>
   resolve_bootdev sample_extern sample_ipl 3 = Inr 3 \<and>
   resolve_bootdev bad_sector_extern sample_ipl 3 = Inr 3"
  using resolve_extracts_field [of 3 sample_extern sample_ipl sample_ipl bad_sector_extern]
  by (simp add: sample_ipl_def)


text \<open>
  C2. For every boot order and attempt index the resolve step fails with the panic
  "No bootable device." exactly when the extracted field is 0, and the failure is fatal:
  \<open>try_boot\<close> halts, \<open>do_boot\<close> does not raise the recovery interrupt, and the
  entry points stop there.
\<close>

theorem no_bootable_device_fatal:
  "(resolve_bootdev X I seq_nr = Inl (Panic ''No bootable device.\<newline>'')) = (bootdev_field X I seq_nr = 0) \<and>
   (snd (try_boot X I seq_nr) = Halted (Panic ''No bootable device.\<newline>''))
      = (CONFIG_BOOT X \<and> bootdev_field X I seq_nr = 0) \<and>
   (CONFIG_BOOT X \<and> bootdev_field X I seq_nr = 0 \<longrightarrow>
      try_boot X I seq_nr = ([], Halted (Panic ''No bootable device.\<newline>'')) \<and>
      do_boot X I seq_nr = ([], Stopped (Panic ''No bootable device.\<newline>''))) \<and>
   (CONFIG_BOOT X \<and> bootdev_field X I 0 = 0 \<longrightarrow>
      snd (handle_19 X I E) = ([], Stopped (Panic ''No bootable device.\<newline>''))) \<and>
   (CONFIG_BOOT X \<and> bootdev_field X I (boot_sequence E + 1) = 0 \<longrightarrow>
      snd (handle_18 X I E) = ([], Stopped (Panic ''No bootable device.\<newline>'')))"
proof -
  have a: "(resolve_bootdev X I seq_nr = Inl (Panic ''No bootable device.\<newline>'')) = (bootdev_field X I seq_nr = 0)"
    by (simp add: resolve_bootdev_def Let_def)
  have t: "try_boot X I s = ([], Halted (Panic ''No bootable device.\<newline>''))"
    if "CONFIG_BOOT X" "bootdev_field X I s = 0" for s
    using that by (simp add: try_boot_def resolve_bootdev_def Let_def)
  have d: "do_boot X I s = ([], Stopped (Panic ''No bootable device.\<newline>''))"
    if "CONFIG_BOOT X" "bootdev_field X I s = 0" for s
    using t [OF that] by (simp add: do_boot_def)
  have b: "(snd (try_boot X I seq_nr) = Halted (Panic ''No bootable device.\<newline>''))
      = (CONFIG_BOOT X \<and> bootdev_field X I seq_nr = 0)"
  proof
    assume "snd (try_boot X I seq_nr) = Halted (Panic ''No bootable device.\<newline>'')"
    from try_boot_halted [OF this] show "CONFIG_BOOT X \<and> bootdev_field X I seq_nr = 0" by simp
  next
    assume "CONFIG_BOOT X \<and> bootdev_field X I seq_nr = 0"
    then show "snd (try_boot X I seq_nr) = Halted (Panic ''No bootable device.\<newline>'')"
      using t [of seq_nr] by simp
  qed
  show ?thesis
    using a b t d by (simp add: handle_18_def handle_19_def Let_def)
qed

theorem no_bootable_device_fatal_witness:
  "CONFIG_BOOT sample_extern \<and> bootdev_field sample_extern sample_ipl 7 = 0 \<and>
   resolve_bootdev sample_extern sample_ipl 7 = Inl (Panic ''No bootable device.\<newline>'') \<and>
   do_boot sample_extern sample_ipl 7 = ([], Stopped (Panic ''No bootable device.\<newline>'')) \<and>
   bootdev_field sample_extern sample_ipl (boot_sequence \<lparr>boot_sequence = 6\<rparr> + 1) = 0 \<and>
   snd (handle_18 sample_extern sample_ipl \<lparr>boot_sequence = 6\<rparr>)
     = ([], Stopped (Panic ''No bootable device.\<newline>''))"
  using no_bootable_device_fatal [of sample_extern sample_ipl 7 "\<lparr>boot_sequence = 6\<rparr>"]
  by (simp add: sample_extern_def sample_ipl_def bootdev_field_def shr_u32_def)

text \<open>
  C6. When the boot order resolves to a table index that is not below \<open>count\<close>, the
  attempt is reported by a \<open>dprintf\<close> only, \<open>try_boot\<close> returns without a jump and
  without printing anything to the user, and this is not the panic "No bootable device.".
  \<open>do_boot\<close> then raises the recovery interrupt.
\<close>

theorem invalid_index_returns:
  assumes "CONFIG_BOOT X" and "resolve_bootdev X I seq_nr = Inr b" and "unat (count I) \<le> unat b"
  shows "try_boot X I seq_nr =
           ([Dprintf 1 ''Invalid boot device (0x%x)\<newline>'' [Num (uint b)]], Returned) \<and>
         do_boot X I seq_nr =
           ([Dprintf 1 ''Invalid boot device (0x%x)\<newline>'' [Num (uint b)], Call16_int18 bregs_zero],
            Recovery bregs_zero) \<and>
         \<not> list_ex is_transfer (fst (try_boot X I seq_nr)) \<and>
         \<not> list_ex is_printf (fst (try_boot X I seq_nr)) \<and>
         snd (try_boot X I seq_nr) \<noteq> Halted (Panic ''No bootable device.\<newline>'')"
proof -
  have t: "try_boot X I seq_nr =
           ([Dprintf 1 ''Invalid boot device (0x%x)\<newline>'' [Num (uint b)]], Returned)"
    using assms by (simp add: try_boot_def count_compare)
  then show ?thesis by (simp add: do_boot_def)
qed

theorem invalid_index_returns_witness:
  "CONFIG_BOOT sample_extern \<and> resolve_bootdev sample_extern sample_ipl 6 = Inr 6 \<and>
   unat (count sample_ipl) \<le> unat (6::u32) \<and>
   try_boot sample_extern sample_ipl 6 =
     ([Dprintf 1 ''Invalid boot device (0x%x)\<newline>'' [Num 6]], Returned)"
proof -
  have c: "CONFIG_BOOT sample_extern" by (simp add: sample_extern_def)
  have r: "resolve_bootdev sample_extern sample_ipl 6 = Inr 6"
    by (simp add: resolve_bootdev_def bootdev_field_def shr_u32_def sample_ipl_def)
  have n: "unat (count sample_ipl) \<le> unat (6::u32)" by (simp add: sample_ipl_def)
  from invalid_index_returns [OF c r n] c r n show ?thesis by simp
qed


section \<open>The boot sequence counter\<close>

text \<open>
  C1, as the spec states it, fails where the counter is 0xffff: \<open>seq\<close> is a 16-bit
  variable, the sum wraps, and \<open>handle_18\<close> stores 0, which is neither the value at
  invocation plus one nor above it.
\<close>

theorem recovery_counter_wraps:
  "boot_sequence (fst (handle_18 sample_extern sample_ipl \<lparr>boot_sequence = 0xffff\<rparr>)) = 0 \<and>
   unat (boot_sequence (fst (handle_18 sample_extern sample_ipl \<lparr>boot_sequence = 0xffff\<rparr>)))
     \<noteq> unat (boot_sequence \<lparr>boot_sequence = 0xffff\<rparr>) + 1 \<and>
   unat (boot_sequence (fst (handle_18 sample_extern sample_ipl \<lparr>boot_sequence = 0xffff\<rparr>)))
     < unat (boot_sequence \<lparr>boot_sequence = 0xffff\<rparr>)"
  by (simp add: handle_18_def Let_def)


text \<open>
  C1, amended. \<open>handle_19\<close> stores 0 in the counter and then runs \<open>do_boot\<close> for
  attempt 0. \<open>handle_18\<close> stores the counter plus one modulo \<open>2 ^ 16\<close> and then runs
  \<open>do_boot\<close> for the stored value: exactly one more than the value at invocation
  unless that was 0xffff, the only case in which the stored value is below it. The stored
  value does not depend on the machine or the table, hence not on what the attempt before
  did. \<open>try_boot\<close> and \<open>do_boot\<close> have no access to the counter.
\<close>

theorem boot_sequence_counter:
  "boot_sequence (fst (handle_19 X I E)) = 0 \<and>
   snd (handle_19 X I E) = do_boot X I 0 \<and>
   unat (boot_sequence (fst (handle_18 X I E))) = (unat (boot_sequence E) + 1) mod 2 ^ 16 \<and>
   (boot_sequence E \<noteq> 0xffff \<longrightarrow>
      unat (boot_sequence (fst (handle_18 X I E))) = unat (boot_sequence E) + 1) \<and>
   (unat (boot_sequence (fst (handle_18 X I E))) < unat (boot_sequence E))
      = (boot_sequence E = 0xffff) \<and>
   snd (handle_18 X I E) = do_boot X I (boot_sequence (fst (handle_18 X I E))) \<and>
   fst (handle_18 X' I' E) = fst (handle_18 X I E)"
proof -
  have lt: "unat (boot_sequence E) < 65536"
    using unsigned_less [of "boot_sequence E", where 'a = nat] by simp
  have m: "unat (boot_sequence E + 1) = (unat (boot_sequence E) + 1) mod 2 ^ 16"
    by (simp add: unat_word_ariths)
  have e: "(boot_sequence E = 0xffff) = (unat (boot_sequence E) = 65535)"
    by (simp add: word_unat_eq_iff)
  have a: "boot_sequence E \<noteq> 0xffff \<longrightarrow> unat (boot_sequence E + 1) = unat (boot_sequence E) + 1"
    unfolding m e using lt by auto
  have b: "(unat (boot_sequence E + 1) < unat (boot_sequence E)) = (boot_sequence E = 0xffff)"
  proof (cases "unat (boot_sequence E) = 65535")
    case True
    then show ?thesis unfolding m e by simp
  next
    case False
    with lt have "(unat (boot_sequence E) + 1) mod 2 ^ 16 = unat (boot_sequence E) + 1" by simp
    with False show ?thesis unfolding m e by simp
  qed
  show ?thesis
    using m a b by (simp add: handle_18_def handle_19_def Let_def)
qed

theorem boot_sequence_counter_witness:
  "boot_sequence \<lparr>boot_sequence = 3\<rparr> \<noteq> 0xffff \<and>
   unat (boot_sequence (fst (handle_18 sample_extern sample_ipl \<lparr>boot_sequence = 3\<rparr>))) = 4 \<and>
   boot_sequence (fst (handle_19 sample_extern sample_ipl \<lparr>boot_sequence = 3\<rparr>)) = 0"
  using boot_sequence_counter [of sample_extern sample_ipl "\<lparr>boot_sequence = 3\<rparr>"]
  by simp

section \<open>Entries of no bootable type\<close>

text \<open>
  C5, as the spec states it, fails on an entry of type 0: \<open>print_boot_device\<close> runs
  before the switch on the type, and \<open>printf_bootdev\<close> panics with "Bad drive type" on
  a type that is 0 or above 4. \<open>try_boot\<close> does not return to its caller.
\<close>

theorem unrecognized_type_halts:
  "dispatched sample_extern sample_ipl 4 \<lparr>type = 0x00, vector = 0, description = None\<rparr> \<and>
   try_boot sample_extern sample_ipl 4 =
     ([Printf ''Booting from '' []], Halted (Panic ''Bad drive type\<newline>'')) \<and>
   snd (try_boot sample_extern sample_ipl 4) \<noteq> Returned"
proof -
  note d = dispatched_sample(5)
  have "printf_entry \<lparr>type = 0x00, vector = 0, description = None\<rparr>
      = ([], Some (Panic ''Bad drive type\<newline>''))"
    by (simp add: printf_entry_def IPL_TYPE_BEV_def)
  with d show ?thesis by (simp add: try_boot_dispatched [OF d])
qed


text \<open>
  C5, amended. For a dispatched entry whose type is none of floppy, hard disk, CD-ROM and
  BEV, \<open>try_boot\<close> never jumps, never prints a boot failure and does no I/O. It is a
  silent return only for the type 4, which \<open>printf_bootdev\<close> accepts and prints as
  "Network" and the switch leaves by its default. For every other such type, 0 included,
  the system halts with the panic "Bad drive type" after printing "Booting from ", and
  \<open>do_boot\<close> does not raise the recovery interrupt.
\<close>

theorem unrecognized_type_outcome:
  assumes "dispatched X I seq_nr e"
    and "type e \<noteq> IPL_TYPE_FLOPPY" and "type e \<noteq> IPL_TYPE_HARDDISK"
    and "type e \<noteq> IPL_TYPE_CDROM" and "type e \<noteq> IPL_TYPE_BEV"
  shows "(type e = 4 \<longrightarrow> try_boot X I seq_nr = (banner e, Returned)) \<and>
    (type e \<noteq> 4 \<longrightarrow>
       try_boot X I seq_nr = ([Printf ''Booting from '' []], Halted (Panic ''Bad drive type\<newline>'')) \<and>
       do_boot X I seq_nr = ([Printf ''Booting from '' []], Stopped (Panic ''Bad drive type\<newline>''))) \<and>
    \<not> list_ex is_transfer (fst (try_boot X I seq_nr)) \<and>
    \<not> list_ex is_boot_failure (fst (try_boot X I seq_nr)) \<and>
    \<not> list_ex is_io (fst (try_boot X I seq_nr))"
proof (cases "type e = 4")
  case True
  have l: "load_switch X I e = ([], Inl Returned)"
    using assms(2-5) by (simp add: load_switch_def Let_def)
  have "try_boot X I seq_nr = (banner e, Returned)"
    using True by (simp add: try_boot_known [OF assms(1)] l)
  with True show ?thesis
    by (simp add: banner_no_transfer banner_no_failure banner_no_io)
next
  case False
  have p: "printf_entry e = ([], Some (Panic ''Bad drive type\<newline>''))"
    using assms(2-5) False
    by (intro printf_entry_bad)
      (simp_all add: IPL_TYPE_FLOPPY_def IPL_TYPE_HARDDISK_def IPL_TYPE_CDROM_def IPL_TYPE_BEV_def)
  have "try_boot X I seq_nr = ([Printf ''Booting from '' []], Halted (Panic ''Bad drive type\<newline>''))"
    by (simp add: try_boot_dispatched [OF assms(1)] p)
  with False show ?thesis by (simp add: do_boot_def)
qed

theorem unrecognized_type_outcome_witness:
  "dispatched sample_extern sample_ipl 5 \<lparr>type = 0x04, vector = 0, description = None\<rparr> \<and>
   try_boot sample_extern sample_ipl 5 =
     ([Printf ''Booting from '' [], Printf ''%s'' [Str ''Network''], Printf ''...\<newline>'' []],
      Returned) \<and>
   dispatched sample_extern sample_ipl 4 \<lparr>type = 0x00, vector = 0, description = None\<rparr> \<and>
   do_boot sample_extern sample_ipl 4 =
     ([Printf ''Booting from '' []], Stopped (Panic ''Bad drive type\<newline>''))"
  using unrecognized_type_outcome [OF dispatched_sample(6)]
    unrecognized_type_outcome [OF dispatched_sample(5)] dispatched_sample(5,6)
  by (simp add: IPL_TYPE_FLOPPY_def IPL_TYPE_HARDDISK_def IPL_TYPE_CDROM_def IPL_TYPE_BEV_def
      banner_def printf_entry_def drivetypes_def)


section \<open>Booting from a bootstrap entry vector\<close>

text \<open>
  C8. For a BEV entry the code segment of the jump is the high 16 bits of the entry's
  vector and the instruction pointer the low 16 bits (vector 0x12340056: segment 0x1234,
  offset 0x0056), the drive byte in \<open>dl\<close> is 0, the attempt makes no disk read and no
  call of \<open>cdrom_boot\<close>, and nothing the disk or the CD-ROM emulation could answer
  changes the run.
\<close>

theorem bev_entry_point:
  assumes "dispatched X I seq_nr e" and "type e = IPL_TYPE_BEV"
  shows "try_boot X I seq_nr =
      (banner e @
       [Dprintf 1 ''Booting from %x:%x\<newline>''
          [Num (uint (vector e) div 65536), Num (uint (vector e) mod 65536)],
        Call16 (boot_frame (ucast (drop_bit 16 (vector e))) (ucast (vector e AND 0xffff)) 0)],
       Jumped (boot_frame (ucast (drop_bit 16 (vector e))) (ucast (vector e AND 0xffff)) 0)) \<and>
    (\<forall>cr. snd (try_boot X I seq_nr) = Jumped cr \<longrightarrow>
       uint (cs cr) = uint (vector e) div 65536 \<and> uint (ip cr) = uint (vector e) mod 65536 \<and>
       dl cr = 0) \<and>
    \<not> list_ex is_io (fst (try_boot X I seq_nr)) \<and>
    try_boot (X\<lparr>int13 := f, get_farvar := g, cdrom_status := c, cdemu_emulated_drive := d,
                cdemu_load_segment := l\<rparr>) I seq_nr = try_boot X I seq_nr"
proof -
  let ?X' = "X\<lparr>int13 := f, get_farvar := g, cdrom_status := c, cdemu_emulated_drive := d,
                cdemu_load_segment := l\<rparr>"
  have k: "type e = 1 \<or> type e = 2 \<or> type e = 3 \<or> type e = 4 \<or> type e = 0x80"
    using assms(2) by (simp add: IPL_TYPE_BEV_def)
  have ty: "type e = 0x80" using assms(2) by (simp add: IPL_TYPE_BEV_def)
  have lo: "(ucast (vector e AND 0xffff) :: u16) = ucast (vector e)"
  proof -
    have m: "(0xffff::u32) = mask 16" by (simp add: mask_eq_exp_minus_1)
    show ?thesis unfolding m by (rule bit_eqI) (auto simp add: bit_simps)
  qed
  have l: "load_switch Y I e =
      ([], Inr (ucast (drop_bit 16 (vector e)), ucast (vector e AND 0xffff), 0))" for Y
    by (simp add: load_switch_eq ty)
  have us: "uint (ucast (drop_bit 16 (vector e)) :: u16) = uint (vector e) div 65536"
  proof -
    have b: "uint (vector e) < 4294967296" "0 \<le> uint (vector e)"
      using unsigned_less [of "vector e", where 'a = int] by simp_all
    have "uint (ucast (drop_bit 16 (vector e)) :: u16)
        = take_bit 16 (drop_bit 16 (take_bit 32 (uint (vector e))))"
      by (simp only: unsigned_ucast_eq unsigned_drop_bit_eq len_bit0 len_num1) simp
    also have "\<dots> = uint (vector e) div 65536 mod 65536"
      using b by (simp add: take_bit_eq_mod drop_bit_eq_div)
    also have "\<dots> = uint (vector e) div 65536"
    proof (rule mod_pos_pos_trivial)
      show "0 \<le> uint (vector e) div 65536" by (simp add: pos_imp_zdiv_nonneg_iff)
      show "uint (vector e) div 65536 < 65536" using b by simp
    qed
    finally show ?thesis .
  qed
  have uo: "uint (ucast (vector e AND 0xffff) :: u16) = uint (vector e) mod 65536"
    unfolding lo by (simp add: unsigned_ucast_eq take_bit_eq_mod)
  have t: "try_boot X I seq_nr =
      (banner e @
       [Dprintf 1 ''Booting from %x:%x\<newline>''
          [Num (uint (vector e) div 65536), Num (uint (vector e) mod 65536)],
        Call16 (boot_frame (ucast (drop_bit 16 (vector e))) (ucast (vector e AND 0xffff)) 0)],
       Jumped (boot_frame (ucast (drop_bit 16 (vector e))) (ucast (vector e AND 0xffff)) 0))"
    by (simp only: try_boot_known [OF assms(1) k] l prod.case sum.case us uo append_Nil)
  have d': "dispatched ?X' I seq_nr e"
    using assms(1) by (simp add: dispatched_cong [of ?X' X])
  have t': "try_boot ?X' I seq_nr = try_boot X I seq_nr"
    by (simp only: try_boot_known [OF assms(1) k] try_boot_known [OF d' k] l)
  have io: "\<not> list_ex is_io (fst (try_boot X I seq_nr))"
    unfolding t using banner_no_io [of e] by simp
  show ?thesis
    using t t' io by (simp add: frame_fields us uo)
qed

theorem bev_entry_point_witness:
  "dispatched sample_extern sample_ipl 3
     \<lparr>type = 0x80, vector = 0x12340056, description = Some ''PXE''\<rparr> \<and>
   type \<lparr>type = 0x80, vector = 0x12340056, description = Some ''PXE''\<rparr> = IPL_TYPE_BEV \<and>
   snd (try_boot sample_extern sample_ipl 3) = Jumped (boot_frame 0x1234 0x0056 0) \<and>
   cs (boot_frame 0x1234 0x0056 0) = 0x1234 \<and> ip (boot_frame 0x1234 0x0056 0) = 0x0056 \<and>
   dl (boot_frame 0x1234 0x0056 0) = 0"
proof -
  have ty: "type \<lparr>type = 0x80, vector = 0x12340056, description = Some ''PXE''\<rparr> = IPL_TYPE_BEV"
    by (simp add: IPL_TYPE_BEV_def)
  from bev_entry_point [OF dispatched_sample(4) ty] dispatched_sample(4) ty
  show ?thesis by (simp add: frame_fields)
qed

section \<open>The boot sector signature\<close>

text \<open>
  C4. After a first-sector read that succeeded (carry flag clear), a hard-disk entry is
  booted exactly when the word at offset 510 of the loaded sector is 0xAA55; a floppy entry
  is held to the same test exactly when \<open>checkfloppysig\<close> is set, and is booted whatever
  the sector holds when it is clear; a wrong signature ends the attempt with "Boot failed:
  not a bootable disk" and no jump. For CD-ROM and BEV entries the word that
  \<open>GET_FARVAR\<close> would read has no influence on the run: no signature is checked.
\<close>

theorem signature_policy:
  assumes "dispatched X I seq_nr e"
  shows
   "(type e = IPL_TYPE_HARDDISK \<and> flags (int13 X (read_request 0x80 0x07c0)) AND F_CF = 0 \<longrightarrow>
      try_boot X I seq_nr =
        (if get_farvar X 0x07c0 mbr_signature_offset = 0xaa55 then
           (banner e @
            [Call16_int13 (read_request 0x80 0x07c0),
             Dprintf 1 ''Booting from %x:%x\<newline>'' [Num 0, Num 0x7c00],
             Call16 (boot_frame 0 0x7c00 0x80)],
            Jumped (boot_frame 0 0x7c00 0x80))
         else
           (banner e @
            [Call16_int13 (read_request 0x80 0x07c0), Printf ''Boot failed'' [],
             Printf '': not a bootable disk'' [], Printf ''\<newline>\<newline>'' []],
            Returned))) \<and>
    (type e = IPL_TYPE_FLOPPY \<and> flags (int13 X (read_request 0x00 0x07c0)) AND F_CF = 0 \<longrightarrow>
      try_boot X I seq_nr =
        (if checkfloppysig I = 0 \<or> get_farvar X 0x07c0 mbr_signature_offset = 0xaa55 then
           (banner e @
            [Call16_int13 (read_request 0x00 0x07c0),
             Dprintf 1 ''Booting from %x:%x\<newline>'' [Num 0, Num 0x7c00],
             Call16 (boot_frame 0 0x7c00 0x00)],
            Jumped (boot_frame 0 0x7c00 0x00))
         else
           (banner e @
            [Call16_int13 (read_request 0x00 0x07c0), Printf ''Boot failed'' [],
             Printf '': not a bootable disk'' [], Printf ''\<newline>\<newline>'' []],
            Returned))) \<and>
    (type e = IPL_TYPE_CDROM \<or> type e = IPL_TYPE_BEV \<longrightarrow>
      try_boot (X\<lparr>get_farvar := g\<rparr>) I seq_nr = try_boot X I seq_nr)"
proof -
  have hd: "try_boot X I seq_nr =
        (if get_farvar X 0x07c0 mbr_signature_offset = 0xaa55 then
           (banner e @
            [Call16_int13 (read_request 0x80 0x07c0),
             Dprintf 1 ''Booting from %x:%x\<newline>'' [Num 0, Num 0x7c00],
             Call16 (boot_frame 0 0x7c00 0x80)],
            Jumped (boot_frame 0 0x7c00 0x80))
         else
           (banner e @
            [Call16_int13 (read_request 0x80 0x07c0), Printf ''Boot failed'' [],
             Printf '': not a bootable disk'' [], Printf ''\<newline>\<newline>'' []],
            Returned))"
    if ty: "type e = IPL_TYPE_HARDDISK" and ok: "flags (int13 X (read_request 0x80 0x07c0)) AND F_CF = 0"
  proof -
    have t2: "type e = 2" using ty by (simp add: IPL_TYPE_HARDDISK_def)
    then have k: "type e = 1 \<or> type e = 2 \<or> type e = 3 \<or> type e = 4 \<or> type e = 0x80" by simp
    have l: "load_switch X I e =
       (if get_farvar X 0x07c0 mbr_signature_offset \<noteq> 0xaa55 then
           ([Call16_int13 (read_request 0x80 0x07c0), Printf ''Boot failed'' [],
             Printf '': not a bootable disk'' [], Printf ''\<newline>\<newline>'' []],
            Inl Returned)
        else ([Call16_int13 (read_request 0x80 0x07c0)], Inr (0, 0x7c00, 0x80)))"
      using ok by (simp add: load_switch_eq t2 load_disk_eq Let_def MBR_SIGNATURE_def)
    show ?thesis
      by (simp add: try_boot_known [OF assms k] l)
  qed
  have fd: "try_boot X I seq_nr =
        (if checkfloppysig I = 0 \<or> get_farvar X 0x07c0 mbr_signature_offset = 0xaa55 then
           (banner e @
            [Call16_int13 (read_request 0x00 0x07c0),
             Dprintf 1 ''Booting from %x:%x\<newline>'' [Num 0, Num 0x7c00],
             Call16 (boot_frame 0 0x7c00 0x00)],
            Jumped (boot_frame 0 0x7c00 0x00))
         else
           (banner e @
            [Call16_int13 (read_request 0x00 0x07c0), Printf ''Boot failed'' [],
             Printf '': not a bootable disk'' [], Printf ''\<newline>\<newline>'' []],
            Returned))"
    if ty: "type e = IPL_TYPE_FLOPPY" and ok: "flags (int13 X (read_request 0x00 0x07c0)) AND F_CF = 0"
  proof -
    have t1: "type e = 1" using ty by (simp add: IPL_TYPE_FLOPPY_def)
    then have k: "type e = 1 \<or> type e = 2 \<or> type e = 3 \<or> type e = 4 \<or> type e = 0x80" by simp
    have l: "load_switch X I e =
       (if checkfloppysig I \<noteq> 0 \<and> get_farvar X 0x07c0 mbr_signature_offset \<noteq> 0xaa55 then
           ([Call16_int13 (read_request 0x00 0x07c0), Printf ''Boot failed'' [],
             Printf '': not a bootable disk'' [], Printf ''\<newline>\<newline>'' []],
            Inl Returned)
        else ([Call16_int13 (read_request 0x00 0x07c0)], Inr (0, 0x7c00, 0x00)))"
      using ok by (simp add: load_switch_eq t1 load_disk_eq Let_def MBR_SIGNATURE_def)
    show ?thesis
      by (simp add: try_boot_known [OF assms k] l)
  qed
  have other: "try_boot (X\<lparr>get_farvar := g\<rparr>) I seq_nr = try_boot X I seq_nr"
    if ty: "type e = IPL_TYPE_CDROM \<or> type e = IPL_TYPE_BEV"
  proof -
    from ty have t: "type e = 3 \<or> type e = 0x80"
      by (simp add: IPL_TYPE_CDROM_def IPL_TYPE_BEV_def)
    then have k: "type e = 1 \<or> type e = 2 \<or> type e = 3 \<or> type e = 4 \<or> type e = 0x80" by blast
    have d': "dispatched (X\<lparr>get_farvar := g\<rparr>) I seq_nr e"
      using assms by (simp add: dispatched_cong [of "X\<lparr>get_farvar := g\<rparr>" X])
    have l: "load_switch (X\<lparr>get_farvar := g\<rparr>) I e = load_switch X I e"
      using t by (auto simp add: load_switch_eq load_cdrom_eq)
    show ?thesis
      by (simp only: try_boot_known [OF assms k] try_boot_known [OF d' k] l)
  qed
  from hd fd other show ?thesis by blast
qed

theorem signature_policy_witness:
  "dispatched bad_sector_extern sample_ipl 0 \<lparr>type = 0x02, vector = 0, description = None\<rparr> \<and>
   type \<lparr>type = 0x02, vector = 0, description = None\<rparr> = IPL_TYPE_HARDDISK \<and>
   flags (int13 bad_sector_extern (read_request 0x80 0x07c0)) AND F_CF = 0 \<and>
   get_farvar bad_sector_extern 0x07c0 mbr_signature_offset \<noteq> 0xaa55 \<and>
   snd (try_boot bad_sector_extern sample_ipl 0) = Returned \<and>
   dispatched bad_sector_extern sample_ipl 1 \<lparr>type = 0x01, vector = 0, description = None\<rparr> \<and>
   type \<lparr>type = 0x01, vector = 0, description = None\<rparr> = IPL_TYPE_FLOPPY \<and>
   flags (int13 bad_sector_extern (read_request 0x00 0x07c0)) AND F_CF = 0 \<and>
   checkfloppysig sample_ipl = 0 \<and>
   snd (try_boot bad_sector_extern sample_ipl 1) = Jumped (boot_frame 0 0x7c00 0x00)"
proof -
  have c: "CONFIG_BOOT bad_sector_extern = CONFIG_BOOT sample_extern"
    "wide_shift bad_sector_extern = wide_shift sample_extern"
    by (simp_all add: bad_sector_extern_def)
  have d0: "dispatched bad_sector_extern sample_ipl 0 \<lparr>type = 0x02, vector = 0, description = None\<rparr>"
    using dispatched_sample(1) by (simp add: dispatched_cong [OF c])
  have d1: "dispatched bad_sector_extern sample_ipl 1 \<lparr>type = 0x01, vector = 0, description = None\<rparr>"
    using dispatched_sample(2) by (simp add: dispatched_cong [OF c])
  have f: "flags (int13 bad_sector_extern r) = flags r" for r
    by (simp add: bad_sector_extern_def sample_extern_def)
  have fl: "flags (read_request v s) = 0" for v s
    by (simp add: read_request_def set_cl_def set_al_def set_ah_def set_dl_def bregs_zero_def)
  have g: "get_farvar bad_sector_extern 0x07c0 mbr_signature_offset = 0"
    by (simp add: bad_sector_extern_def)
  have cf: "checkfloppysig sample_ipl = 0" by (simp add: sample_ipl_def)
  from signature_policy [OF d0] signature_policy [OF d1] d0 d1 f fl g cf
  show ?thesis
    by (simp add: IPL_TYPE_HARDDISK_def IPL_TYPE_FLOPPY_def)
qed

section \<open>The control-transfer frame\<close>

text \<open>
  C9. When the load of a dispatched entry succeeds with a target (segment, offset) and a
  drive byte, the frame handed to \<open>call16\<close> has the offset in \<open>ip\<close>, the segment in
  \<open>cs\<close>, the drive byte in \<open>dl\<close> and 0xAA55 in \<open>ax\<close>; the drive byte is 0x00 for
  a floppy, 0x80 for a hard disk, the emulated drive of the CD-ROM emulation for a CD-ROM
  and 0 for a BEV entry.
\<close>

theorem transfer_frame:
  assumes "dispatched X I seq_nr e" and "load_switch X I e = (t, Inr (bootseg, bootip, bootdrv))"
  shows "try_boot X I seq_nr =
      (banner e @ t @
       [Dprintf 1 ''Booting from %x:%x\<newline>'' [Num (uint bootseg), Num (uint bootip)],
        Call16 (boot_frame bootseg bootip bootdrv)],
       Jumped (boot_frame bootseg bootip bootdrv)) \<and>
    ip (boot_frame bootseg bootip bootdrv) = bootip \<and>
    cs (boot_frame bootseg bootip bootdrv) = bootseg \<and>
    dl (boot_frame bootseg bootip bootdrv) = bootdrv \<and>
    ax (boot_frame bootseg bootip bootdrv) = 0xaa55 \<and>
    (type e = IPL_TYPE_FLOPPY \<and> bootdrv = 0x00 \<or>
     type e = IPL_TYPE_HARDDISK \<and> bootdrv = 0x80 \<or>
     type e = IPL_TYPE_CDROM \<and> bootdrv = cdemu_emulated_drive X \<or>
     type e = IPL_TYPE_BEV \<and> bootdrv = 0)"
proof -
  have drv: "type e = 1 \<and> bootdrv = 0x00 \<or> type e = 2 \<and> bootdrv = 0x80 \<or>
     type e = 3 \<and> bootdrv = cdemu_emulated_drive X \<or> type e = 0x80 \<and> bootdrv = 0"
    using assms(2)
    by (auto simp: load_switch_eq load_disk_eq load_cdrom_eq Let_def split: if_splits)
  then have k: "type e = 1 \<or> type e = 2 \<or> type e = 3 \<or> type e = 4 \<or> type e = 0x80"
    by blast
  have t: "try_boot X I seq_nr =
      (banner e @ t @
       [Dprintf 1 ''Booting from %x:%x\<newline>'' [Num (uint bootseg), Num (uint bootip)],
        Call16 (boot_frame bootseg bootip bootdrv)],
       Jumped (boot_frame bootseg bootip bootdrv))"
    by (simp only: try_boot_known [OF assms(1) k] assms(2) prod.case sum.case)
  from t drv show ?thesis
    by (simp add: frame_fields IPL_TYPE_FLOPPY_def IPL_TYPE_HARDDISK_def IPL_TYPE_CDROM_def
        IPL_TYPE_BEV_def)
qed

theorem transfer_frame_witness:
  "dispatched sample_extern sample_ipl 2 \<lparr>type = 0x03, vector = 0, description = None\<rparr> \<and>
   load_switch sample_extern sample_ipl \<lparr>type = 0x03, vector = 0, description = None\<rparr>
      = ([Cdrom_boot], Inr (0, 0x7c00, 0xe0)) \<and>
   snd (try_boot sample_extern sample_ipl 2) = Jumped (boot_frame 0 0x7c00 0xe0) \<and>
   ip (boot_frame 0 0x7c00 0xe0) = 0x7c00 \<and> cs (boot_frame 0 0x7c00 0xe0) = 0 \<and>
   dl (boot_frame 0 0x7c00 0xe0) = 0xe0 \<and> ax (boot_frame 0 0x7c00 0xe0) = 0xaa55"
  using transfer_frame [OF dispatched_sample(3) sample_load_cdrom] dispatched_sample(3)
    sample_load_cdrom
  by simp


text \<open>
  C10. In every frame \<open>try_boot\<close> jumps with, all registers other than \<open>ip\<close>,
  \<open>cs\<close>, \<open>dl\<close> and \<open>ax\<close> are zero, the rest of \<open>edx\<close> and of \<open>eax\<close>
  included; and for a floppy or hard-disk entry the entry point is segment 0x0000, offset
  0x7C00.
\<close>

theorem frame_zero_elsewhere:
  assumes "snd (try_boot X I seq_nr) = Jumped cr"
  shows "ds cr = 0 \<and> es cr = 0 \<and> edi cr = 0 \<and> esi cr = 0 \<and> ebp cr = 0 \<and> ebx cr = 0 \<and>
    ecx cr = 0 \<and> flags cr = 0 \<and> edx cr = ucast (dl cr) \<and> dh cr = 0 \<and>
    eax cr = ucast (ax cr) \<and> ax cr = 0xaa55 \<and>
    cr = \<lparr>ds = 0, es = 0, edi = 0, esi = 0, ebp = 0, ebx = 0, edx = ucast (dl cr), ecx = 0,
          eax = 0xaa55, ip = ip cr, cs = cs cr, flags = 0\<rparr> \<and>
    (\<forall>e. dispatched X I seq_nr e \<and> (type e = IPL_TYPE_FLOPPY \<or> type e = IPL_TYPE_HARDDISK) \<longrightarrow>
       cs cr = 0 \<and> ip cr = 0x7c00)"
proof -
  obtain bootseg bootip bootdrv where cr: "cr = boot_frame bootseg bootip bootdrv"
    using try_boot_jumped [OF assms] by blast
  have zero: "ds cr = 0 \<and> es cr = 0 \<and> edi cr = 0 \<and> esi cr = 0 \<and> ebp cr = 0 \<and> ebx cr = 0 \<and>
    ecx cr = 0 \<and> flags cr = 0 \<and> edx cr = ucast (dl cr) \<and> dh cr = 0 \<and>
    eax cr = ucast (ax cr) \<and> ax cr = 0xaa55 \<and>
    cr = \<lparr>ds = 0, es = 0, edi = 0, esi = 0, ebp = 0, ebx = 0, edx = ucast (dl cr), ecx = 0,
          eax = 0xaa55, ip = ip cr, cs = cs cr, flags = 0\<rparr>"
    unfolding cr boot_frame_record
    by (simp add: dl_def dh_def ax_def ucast_u8_u32_u8 dh_ucast)
  have disk: "cs cr = 0 \<and> ip cr = 0x7c00"
    if d: "dispatched X I seq_nr e" and ty: "type e = IPL_TYPE_FLOPPY \<or> type e = IPL_TYPE_HARDDISK"
    for e
  proof -
    from ty have t: "type e = 1 \<or> type e = 2"
      by (simp add: IPL_TYPE_FLOPPY_def IPL_TYPE_HARDDISK_def)
    then have k: "type e = 1 \<or> type e = 2 \<or> type e = 3 \<or> type e = 4 \<or> type e = 0x80" by blast
    from assms t have "\<exists>drv. cr = boot_frame 0 0x7c00 drv"
      by (auto simp: try_boot_known [OF d k] load_switch_eq load_disk_eq Let_def
          split: if_splits)
    then show ?thesis by (auto simp: frame_fields)
  qed
  from zero disk show ?thesis by blast
qed

theorem frame_zero_elsewhere_witness:
  "snd (try_boot sample_extern sample_ipl 0) = Jumped (boot_frame 0 0x7c00 0x80) \<and>
   dispatched sample_extern sample_ipl 0 \<lparr>type = 0x02, vector = 0, description = None\<rparr> \<and>
   type \<lparr>type = 0x02, vector = 0, description = None\<rparr> = IPL_TYPE_HARDDISK \<and>
   boot_frame 0 0x7c00 0x80 =
     \<lparr>ds = 0, es = 0, edi = 0, esi = 0, ebp = 0, ebx = 0, edx = 0x80, ecx = 0,
      eax = 0xaa55, ip = 0x7c00, cs = 0, flags = 0\<rparr>"
proof -
  have ty: "type \<lparr>type = 0x02, vector = 0, description = None\<rparr> = IPL_TYPE_HARDDISK"
    by (simp add: IPL_TYPE_HARDDISK_def)
  from frame_zero_elsewhere [OF sample_run_hd] sample_run_hd dispatched_sample(1) ty
  show ?thesis by (simp add: frame_fields)
qed

end
